theory Spec2Isabelle
  imports Main "HOL-Library.Word"
begin

section \<open>Common ground: bytes, errors, readers\<close>

text \<open>
  Go's \<^verbatim>\<open>byte\<close> is an unsigned 8-bit integer.  A Go \<^verbatim>\<open>[]byte\<close> and the bytes of a
  Go \<^verbatim>\<open>string\<close> received from the wire are lists of bytes.  An \<^verbatim>\<open>io.Reader\<close> over a
  connection is modelled by the bytes the peer has sent and that are still unread, followed
  by end-of-stream.
\<close>

type_synonym byte = "8 word"

datatype error =
    EOF
  | ErrUnexpectedEOF
  | ErrShortWrite
  | ErrInvalidWrite
  | ECONNRESET
  | ErrUnsupportedVersion byte
  | ErrGSSAPINotSupported
  | ErrNoSupportedAuth
  | ErrUnsupportedAuthVersion byte
  | ErrInvalidCredentials
  | ErrUnrecognizedAddrType
  | ErrConfig string
  | ErrOther string

text \<open>
  \<^verbatim>\<open>io.ReadFull(r, buf)\<close> with \<^verbatim>\<open>len(buf) = n\<close>: exactly \<open>n\<close> bytes, or \<^verbatim>\<open>io.EOF\<close> when the
  stream ends before the first byte and \<^verbatim>\<open>io.ErrUnexpectedEOF\<close> when it ends in between.
\<close>

definition ReadFull :: "nat \<Rightarrow> byte list \<Rightarrow> error + (byte list \<times> byte list)" where
  "ReadFull n r =
     (if n \<le> length r then Inr (take n r, drop n r)
      else if r = [] then Inl EOF else Inl ErrUnexpectedEOF)"

section \<open>SOCKS4: \<^verbatim>\<open>proxy/socks/socks4/common.go\<close>\<close>

definition Socks4Version :: byte where "Socks4Version = 0x04"
definition ConnectCommand :: byte where "ConnectCommand = 0x01"
definition BindCommand :: byte where "BindCommand = 0x02"

record Address =
  Name :: "byte list"
  IP :: "byte list"
  Port :: nat

record Request =
  Version :: byte
  Command :: byte
  DestAddr :: Address
  User :: "byte list"

text \<open>
  \<^verbatim>\<open>net.IPv4(a, b, c, d)\<close> of the Go standard library returns the address in its 16-byte
  form: the twelve bytes of the IPv4-in-IPv6 prefix (ten zero bytes, then \<^verbatim>\<open>0xff 0xff\<close>)
  followed by \<open>a b c d\<close>.
\<close>

definition v4InV6Prefix :: "byte list" where
  "v4InV6Prefix = [0, 0, 0, 0, 0, 0, 0, 0, 0, 0, 0xff, 0xff]"

definition IPv4 :: "byte \<Rightarrow> byte \<Rightarrow> byte \<Rightarrow> byte \<Rightarrow> byte list" where
  "IPv4 a b c d = v4InV6Prefix @ [a, b, c, d]"

text \<open>\<^verbatim>\<open>binary.BigEndian.Uint16\<close> on a two-byte slice.\<close>

definition Uint16 :: "byte \<Rightarrow> byte \<Rightarrow> nat" where
  "Uint16 hi lo = unat hi * 256 + unat lo"

text \<open>
  \<^verbatim>\<open>readUntilNull\<close>: one byte per \<^verbatim>\<open>Read\<close> until a zero byte; a read error (the end of
  the stream) is returned as it is and the bytes collected so far are dropped.
\<close>

fun readUntilNull_loop :: "byte list \<Rightarrow> byte list \<Rightarrow> error + (byte list \<times> byte list)" where
  "readUntilNull_loop buf [] = Inl EOF"
| "readUntilNull_loop buf (b # r) =
     (if b = 0 then Inr (buf, r) else readUntilNull_loop (buf @ [b]) r)"

definition readUntilNull :: "byte list \<Rightarrow> error + (byte list \<times> byte list)" where
  "readUntilNull r = readUntilNull_loop [] r"

text \<open>
  \<^verbatim>\<open>isSocks4a\<close> tests the first four bytes of \<^verbatim>\<open>DestAddr.IP\<close> with a chain of \<^verbatim>\<open>&&\<close>, which
  evaluates its operands from left to right and stops at the first false one.  Indexing
  past the end of the slice panics in Go; that is the value \<open>None\<close>, and it is reached only
  when every earlier operand was true.
\<close>

definition isSocks4a :: "Request \<Rightarrow> bool option" where
  "isSocks4a r =
     (let ip = IP (DestAddr r) in
      if length ip < 1 then None
      else if ip ! 0 \<noteq> 0 then Some False
      else if length ip < 2 then None
      else if ip ! 1 \<noteq> 0 then Some False
      else if length ip < 3 then None
      else if ip ! 2 \<noteq> 0 then Some False
      else if length ip < 4 then None
      else Some (ip ! 3 \<noteq> 0))"

datatype 'a go = Ok 'a | Err error | Panic

text \<open>
  \<^verbatim>\<open>NewRequest\<close>: the parsed request together with the bytes of the stream it has left
  unread.
\<close>

definition NewRequest :: "byte list \<Rightarrow> (Request \<times> byte list) go" where
  "NewRequest r =
     (case ReadFull 2 r of
        Inl e \<Rightarrow> Err e
      | Inr (header, r1) \<Rightarrow>
          let version = header ! 0; command = header ! 1 in
          if version \<noteq> Socks4Version then Err (ErrUnsupportedVersion version)
          else
            (case ReadFull 6 r1 of
               Inl e \<Rightarrow> Err e
             | Inr (addr, r2) \<Rightarrow>
                 let port = Uint16 (addr ! 0) (addr ! 1);
                     ip = IPv4 (addr ! 2) (addr ! 3) (addr ! 4) (addr ! 5)
                 in
                   (case readUntilNull r2 of
                      Inl e \<Rightarrow> Err e
                    | Inr (user, r3) \<Rightarrow>
                        let req = \<lparr>Version = version, Command = command,
                                   DestAddr = \<lparr>Name = [], IP = ip, Port = port\<rparr>,
                                   User = user\<rparr>
                        in
                          (case isSocks4a req of
                             None \<Rightarrow> Panic
                           | Some True \<Rightarrow>
                               (case readUntilNull r3 of
                                  Inl e \<Rightarrow> Err e
                                | Inr (domain, r4) \<Rightarrow>
                                    Ok (req\<lparr>DestAddr := (DestAddr req)\<lparr>Name := domain\<rparr>\<rparr>, r4))
                           | Some False \<Rightarrow> Ok (req, r3)))))"

text \<open>
  The SOCKS4a request of the specification's scenario 3:
  \<^verbatim>\<open>04 01 00 50 00 00 00 01 00 'e' 'x' '.' 'c' 'o' 'm' 00\<close>.
\<close>

definition socks4a_example :: "byte list" where
  "socks4a_example =
     [0x04, 0x01, 0x00, 0x50, 0x00, 0x00, 0x00, 0x01, 0x00,
      0x65, 0x78, 0x2e, 0x63, 0x6f, 0x6d, 0x00]"

section \<open>SOCKS5: \<^verbatim>\<open>proxy/socks/socks5\<close>\<close>
















subsection \<open>The embedded UDP relay: \<^verbatim>\<open>Server.embedHandleAssociate\<close>\<close>

text \<open>
  Modelled from the spec: \<^verbatim>\<open>readAddr\<close> and the \<^verbatim>\<open>address\<close> structure it returns are not
  under \<^verbatim>\<open>src/\<close>.  The specification gives the wire format: one byte \<^verbatim>\<open>ATYP\<close>, then 4
  bytes (\<^verbatim>\<open>0x01\<close>, IPv4), a length byte and that many bytes (\<^verbatim>\<open>0x03\<close>, domain name) or 16
  bytes (\<^verbatim>\<open>0x04\<close>, IPv6), then the port in two bytes, big-endian; every other \<^verbatim>\<open>ATYP\<close> is
  the unrecognised-address-type error.  The code under \<^verbatim>\<open>src/\<close> uses the fields \<^verbatim>\<open>Name\<close>,
  \<^verbatim>\<open>IP\<close> and \<^verbatim>\<open>Port\<close> of the structure, which is the shape of \<open>Address\<close> above.  The
  result holds the bytes of the buffer that \<^verbatim>\<open>readAddr\<close> has not consumed.
\<close>

definition readPort :: "Address \<Rightarrow> byte list \<Rightarrow> error + (Address \<times> byte list)" where
  "readPort a r =
     (case ReadFull 2 r of
        Inl e \<Rightarrow> Inl e
      | Inr (port, r1) \<Rightarrow> Inr (a\<lparr>Port := Uint16 (port ! 0) (port ! 1)\<rparr>, r1))"

definition readAddr :: "byte list \<Rightarrow> error + (Address \<times> byte list)" where
  "readAddr r =
     (case r of
        [] \<Rightarrow> Inl EOF
      | atyp # r1 \<Rightarrow>
          if atyp = 0x01 then
            (case ReadFull 4 r1 of
               Inl e \<Rightarrow> Inl e
             | Inr (ip, r2) \<Rightarrow> readPort \<lparr>Name = [], IP = ip, Port = 0\<rparr> r2)
          else if atyp = 0x04 then
            (case ReadFull 16 r1 of
               Inl e \<Rightarrow> Inl e
             | Inr (ip, r2) \<Rightarrow> readPort \<lparr>Name = [], IP = ip, Port = 0\<rparr> r2)
          else if atyp = 0x03 then
            (case r1 of
               [] \<Rightarrow> Inl EOF
             | len # r2 \<Rightarrow>
                 (case ReadFull (unat len) r2 of
                    Inl e \<Rightarrow> Inl e
                  | Inr (fqdn, r3) \<Rightarrow> readPort \<lparr>Name = fqdn, IP = [], Port = 0\<rparr> r3))
          else Inl ErrUnrecognizedAddrType)"

text \<open>
  A \<^verbatim>\<open>net.Addr\<close> of the relay is a UDP address: the sender that \<^verbatim>\<open>ReadFrom\<close> reports, or
  the \<^verbatim>\<open>net.UDPAddr\<close> the relay builds from a parsed address.
\<close>

datatype net_addr = UDPAddr "byte list" nat

text \<open>
  What the relay takes from outside \<^verbatim>\<open>src/\<close>: the text of a parsed address
  (\<^verbatim>\<open>address.String\<close>), the text of a \<^verbatim>\<open>net.Addr\<close> (\<^verbatim>\<open>String\<close> of the standard library),
  the bytes \<^verbatim>\<open>writeAddrWithStr\<close> appends for a target given as text (or its error), and the
  size \<^verbatim>\<open>maxUdpPacket\<close> of the relay's buffer.  They are parameters of the model.
\<close>

record udp_env =
  addressString :: "Address \<Rightarrow> string"
  netAddrString :: "net_addr \<Rightarrow> string"
  writeAddrWithStr :: "string \<Rightarrow> error + byte list"
  maxUdpPacket :: nat

text \<open>The variables of \<^verbatim>\<open>embedHandleAssociate\<close> that live across iterations of its loop.\<close>

record relay_state =
  sourceAddr :: "net_addr option"
  wantSource :: string
  targetAddr :: "net_addr option"
  wantTarget :: string
  replyPrefix :: "byte list option"

definition relay_init :: relay_state where
  "relay_init = \<lparr>sourceAddr = None, wantSource = [], targetAddr = None, wantTarget = [],
                  replyPrefix = None\<rparr>"

text \<open>
  One iteration of the loop is driven by what \<^verbatim>\<open>udpConn.ReadFrom\<close> returns: an error, or a
  datagram with its sender.  A datagram also carries the result that the \<^verbatim>\<open>WriteTo\<close> of
  this iteration returns if the iteration gets that far.
\<close>

datatype udp_event =
    ReadFromError error
  | Datagram "byte list" net_addr "error option"

text \<open>
  The outcome of one iteration: the loop goes on (with the datagram it has sent, if any),
  the function returns an error, or a slice expression is out of range and the goroutine
  panics.
\<close>

datatype relay_step =
    Next relay_state "(byte list \<times> net_addr) option"
  | Return error
  | Crash

definition from_client :: "udp_env \<Rightarrow> relay_state \<Rightarrow> byte list \<Rightarrow> relay_step" where
  "from_client env st buf =
     (if length buf < 3 then Next st None
      else
        (case readAddr (drop 3 buf) of
           Inl e \<Rightarrow> Next st None
         | Inr (addr, payload) \<Rightarrow>
             let target = (case targetAddr st of
                             None \<Rightarrow> UDPAddr (IP addr) (Port addr)
                           | Some t \<Rightarrow> t);
                 st1 = (case targetAddr st of
                          None \<Rightarrow> st\<lparr>targetAddr := Some target,
                                       wantTarget := netAddrString env target\<rparr>
                        | Some t \<Rightarrow> st)
             in if addressString env addr \<noteq> wantTarget st1 then Next st1 None
                else Next st1 (Some (payload, target))))"

definition from_target :: "udp_env \<Rightarrow> relay_state \<Rightarrow> net_addr \<Rightarrow> byte list \<Rightarrow> relay_step" where
  "from_target env st source buf =
     (let made = (case replyPrefix st of
                    Some p \<Rightarrow> Inr p
                  | None \<Rightarrow>
                      (case writeAddrWithStr env (wantTarget st) of
                         Inl e \<Rightarrow> Inl e
                       | Inr bs \<Rightarrow> Inr ([0, 0, 0] @ bs)))
      in case made of
           Inl e \<Rightarrow> Return e
         | Inr p \<Rightarrow>
             if maxUdpPacket env < length p + length buf then Crash
             else Next (st\<lparr>replyPrefix := Some p\<rparr>) (Some (p @ buf, source)))"

text \<open>
  The loop body.  \<^verbatim>\<open>ReadFrom\<close> stores at most \<^verbatim>\<open>maxUdpPacket\<close> bytes of a datagram.  A
  failed \<^verbatim>\<open>WriteTo\<close> ends the function with its error.
\<close>

definition relay_iteration :: "udp_env \<Rightarrow> relay_state \<Rightarrow> udp_event \<Rightarrow> relay_step" where
  "relay_iteration env st ev =
     (case ev of
        ReadFromError e \<Rightarrow> Return e
      | Datagram data addr wres \<Rightarrow>
         (let buf = take (maxUdpPacket env) data;
              st1 = (case sourceAddr st of
                       None \<Rightarrow> st\<lparr>sourceAddr := Some addr, wantSource := netAddrString env addr\<rparr>
                     | Some a \<Rightarrow> st);
              source = (case sourceAddr st of None \<Rightarrow> addr | Some a \<Rightarrow> a);
              gotAddr = netAddrString env addr;
              step =
                (if wantSource st1 = gotAddr then from_client env st1 buf
                 else if targetAddr st1 \<noteq> None \<and> wantTarget st1 = gotAddr
                   then from_target env st1 source buf
                 else Next st1 None)
          in (case step of
                Return e \<Rightarrow> Return e
              | Crash \<Rightarrow> Crash
              | Next st2 sent \<Rightarrow>
                  (case sent of
                     None \<Rightarrow> Next st2 None
                   | Some d \<Rightarrow>
                       (case wres of
                          Some e \<Rightarrow> Return e
                        | None \<Rightarrow> Next st2 (Some d))))))"

text \<open>
  The loop over the datagrams that arrive.  It ends only with an error or a panic; when the
  events run out the relay is still blocked in \<^verbatim>\<open>ReadFrom\<close>, which is the result \<open>None\<close>.
  The first component lists the datagrams sent, in order.
\<close>

fun relay_loop ::
  "udp_env \<Rightarrow> relay_state \<Rightarrow> udp_event list \<Rightarrow> (byte list \<times> net_addr) list \<times> unit go option" where
  "relay_loop env st [] = ([], None)"
| "relay_loop env st (ev # evs) =
     (case relay_iteration env st ev of
        Return e \<Rightarrow> ([], Some (Err e))
      | Crash \<Rightarrow> ([], Some Panic)
      | Next st1 sent \<Rightarrow>
          (case relay_loop env st1 evs of
             (out, r) \<Rightarrow> ((case sent of None \<Rightarrow> [] | Some d \<Rightarrow> [d]) @ out, r)))"

definition embedHandleAssociate ::
  "udp_env \<Rightarrow> udp_event list \<Rightarrow> (byte list \<times> net_addr) list \<times> unit go option" where
  "embedHandleAssociate env evs = relay_loop env relay_init evs"

text \<open>
  Whether a datagram counts as the client's: the first datagram fixes the client source
  address, later ones are the client's when their sender's text equals the fixed one.
\<close>

definition is_from_client :: "udp_env \<Rightarrow> relay_state \<Rightarrow> net_addr \<Rightarrow> bool" where
  "is_from_client env st sender =
     (case sourceAddr st of
        None \<Rightarrow> True
      | Some a \<Rightarrow> wantSource st = netAddrString env sender)"

text \<open>
  The target of the association once a client datagram addressed to \<open>addr\<close> has been parsed
  (the first such datagram fixes it), and whether \<open>addr\<close> is that target: the relay compares
  the text of the parsed address with the text of the target.
\<close>

definition target_of :: "relay_state \<Rightarrow> Address \<Rightarrow> net_addr" where
  "target_of st addr =
     (case targetAddr st of
        None \<Rightarrow> UDPAddr (IP addr) (Port addr)
      | Some t \<Rightarrow> t)"

definition is_target :: "udp_env \<Rightarrow> relay_state \<Rightarrow> Address \<Rightarrow> bool" where
  "is_target env st addr =
     (addressString env addr =
        (case targetAddr st of
           None \<Rightarrow> netAddrString env (UDPAddr (IP addr) (Port addr))
         | Some t \<Rightarrow> wantTarget st))"

subsection \<open>Decimal text\<close>

text \<open>
  \<^verbatim>\<open>strconv.Itoa\<close> and the verb \<^verbatim>\<open>%d\<close> of \<^verbatim>\<open>fmt.Sprintf\<close>: decimal digits, most significant
  first, with a minus sign for a negative number.
\<close>

definition digit :: "nat \<Rightarrow> char" where
  "digit d = ''0123456789'' ! (d mod 10)"

fun decimal :: "nat \<Rightarrow> string" where
  "decimal n = (if n < 10 then [digit n] else decimal (n div 10) @ [digit (n mod 10)])"

declare decimal.simps [simp del]

definition Itoa :: "int \<Rightarrow> string" where
  "Itoa i = (if i < 0 then CHR ''-'' # decimal (nat (- i)) else decimal (nat i))"

subsection \<open>An environment for the specification's UDP scenario\<close>

text \<open>
  Scenario 2 of the specification relays a DNS query to \<^verbatim>\<open>8.8.8.8:53\<close>.  In this
  environment an IPv4 address and port are written \<^verbatim>\<open>a.b.c.d:port\<close> by both \<^verbatim>\<open>String\<close>
  methods, the reply prefix of the target \<^verbatim>\<open>8.8.8.8:53\<close> is built from the address bytes
  \<^verbatim>\<open>01 08 08 08 08 00 35\<close>, and the buffer holds 65507 bytes.
\<close>

fun dotted :: "byte list \<Rightarrow> string" where
  "dotted [] = []"
| "dotted [b] = decimal (unat b)"
| "dotted (b # bs) = decimal (unat b) @ ''.'' @ dotted bs"

fun udp_text :: "net_addr \<Rightarrow> string" where
  "udp_text (UDPAddr ip port) = dotted ip @ '':'' @ decimal port"

definition scenario_env :: udp_env where
  "scenario_env =
     \<lparr>addressString = (\<lambda>a. udp_text (UDPAddr (IP a) (Port a))),
      netAddrString = udp_text,
      writeAddrWithStr =
        (\<lambda>s. if s = ''8.8.8.8:53'' then Inr [0x01, 0x08, 0x08, 0x08, 0x08, 0x00, 0x35]
             else Inl (ErrOther ''not the target of the scenario'')),
      maxUdpPacket = 65507\<rparr>"

definition app_addr :: net_addr where
  "app_addr = UDPAddr [127, 0, 0, 1] 40000"

definition dns_addr :: net_addr where
  "dns_addr = UDPAddr [8, 8, 8, 8] 53"

text \<open>
  Two datagrams of the application for \<^verbatim>\<open>8.8.8.8:53\<close>: one with \<^verbatim>\<open>FRAG = 0\<close> and the data
  \<^verbatim>\<open>AA BB\<close>, one with \<^verbatim>\<open>FRAG = 1\<close> and the data \<^verbatim>\<open>EE\<close>.  The state is the one the relay
  is in once it has seen the first of them.
\<close>

definition dns_request :: "byte list" where
  "dns_request = [0x00, 0x00, 0x00, 0x01, 0x08, 0x08, 0x08, 0x08, 0x00, 0x35, 0xAA, 0xBB]"

definition fragment_request :: "byte list" where
  "fragment_request = [0x00, 0x00, 0x01, 0x01, 0x08, 0x08, 0x08, 0x08, 0x00, 0x35, 0xEE]"

definition relay_associated :: relay_state where
  "relay_associated =
     \<lparr>sourceAddr = Some app_addr, wantSource = ''127.0.0.1:40000'',
      targetAddr = Some dns_addr, wantTarget = ''8.8.8.8:53'', replyPrefix = None\<rparr>"

section \<open>The forwarding handler: \<^verbatim>\<open>vtun.go\<close>\<close>

text \<open>
  \<^verbatim>\<open>copyConnTimeout\<close> talks to two connections.  What it does is determined by what their
  calls return, iteration by iteration: the result of \<^verbatim>\<open>src.SetReadDeadline\<close>, the pair
  \<^verbatim>\<open>(nr, er)\<close> of \<^verbatim>\<open>src.Read\<close>, and the pair \<^verbatim>\<open>(nw, ew)\<close> of \<^verbatim>\<open>dst.Write\<close>, which is
  consulted only when \<^verbatim>\<open>nr > 0\<close>.  The byte counts \<^verbatim>\<open>nr\<close> and \<^verbatim>\<open>nw\<close> are whatever integers the
  connections return.  The result \<^verbatim>\<open>written\<close> is an \<^verbatim>\<open>int64\<close>: a 64-bit word, read as a signed
  number, whose addition wraps around.  The timeout only chooses the deadline passed to
  \<^verbatim>\<open>SetReadDeadline\<close>.
\<close>

record copy_iter =
  deadline_err :: "error option"
  nr :: int
  er :: "error option"
  nw :: int
  ew :: "error option"

datatype copy_outcome = Returns "64 word" "error option" | Panics

text \<open>
  The buffer is \<^verbatim>\<open>nil\<close> (\<open>None\<close>) or a slice of some length, its capacity being its length (as
  for a slice made by \<^verbatim>\<open>make([]byte, n)\<close>); \<^verbatim>\<open>len\<close> of a \<^verbatim>\<open>nil\<close> slice is 0.
\<close>

definition len :: "nat option \<Rightarrow> nat" where
  "len buf = (case buf of None \<Rightarrow> 0 | Some n \<Rightarrow> n)"

text \<open>
  The loop.  When the connections' answers run out the loop is still running (blocked in a
  call): the result \<open>None\<close>.  The slice expression \<^verbatim>\<open>buf[0:nr]\<close>, evaluated when \<^verbatim>\<open>nr > 0\<close> and
  before the write, panics when \<^verbatim>\<open>nr\<close> is beyond the buffer; with a \<^verbatim>\<open>nil\<close> buffer that is every
  \<^verbatim>\<open>nr > 0\<close>.
\<close>

fun copy_loop :: "nat option \<Rightarrow> 64 word \<Rightarrow> copy_iter list \<Rightarrow> copy_outcome option" where
  "copy_loop buf written [] = None"
| "copy_loop buf written (it # its) =
     (case deadline_err it of
        Some e \<Rightarrow> Some (Returns written (Some e))
      | None \<Rightarrow>
          if 0 < nr it \<and> int (len buf) < nr it then Some Panics
          else
            let invalid = (nw it < 0 \<or> nr it < nw it);
                nw1 = (if 0 < nr it then (if invalid then 0 else nw it) else 0);
                ew1 = (if 0 < nr it
                       then (if invalid \<and> ew it = None then Some ErrInvalidWrite else ew it)
                       else None);
                written1 = written + of_int nw1
            in
              if ew1 \<noteq> None then Some (Returns written1 ew1)
              else if 0 < nr it \<and> nr it \<noteq> nw1 then Some (Returns written1 (Some ErrShortWrite))
              else
                (case er it of
                   Some e \<Rightarrow> Some (Returns written1 (if e \<noteq> EOF then Some e else None))
                 | None \<Rightarrow> copy_loop buf written1 its))"

text \<open>
  A slice that is not \<^verbatim>\<open>nil\<close> and has length 0 makes \<^verbatim>\<open>copyConnTimeout\<close> panic before the
  loop.
\<close>

definition copyConnTimeout :: "nat option \<Rightarrow> copy_iter list \<Rightarrow> copy_outcome option" where
  "copyConnTimeout buf its =
     (if buf = Some 0 then Some Panics else copy_loop buf 0 its)"





definition BuffSize :: nat where "BuffSize = 65536"

text \<open>
  \<^verbatim>\<open>virtualTun.handler\<close>.  The inputs are the result of the dial through the tunnel, the
  answers of the connections to the two copiers (client to tunnel, tunnel to client) and
  which copier is the first to send on the channel \<^verbatim>\<open>done\<close>.  The result is \<open>None\<close> when a
  copier does not return (the handler waits for both; a copier that panics ends the
  program); otherwise it is the error the handler logs as a warning together with the error
  it returns.
\<close>

definition handler ::
  "error option \<Rightarrow> bool \<Rightarrow> copy_iter list \<Rightarrow> copy_iter list
     \<Rightarrow> (error option \<times> error option) option" where
  "handler dial client_first to_tunnel to_client =
     (case dial of
        Some e \<Rightarrow> Some (None, Some e)
      | None \<Rightarrow>
          (case (copyConnTimeout (Some BuffSize) to_tunnel,
                 copyConnTimeout (Some BuffSize) to_client) of
             (Some (Returns w1 e1), Some (Returns w2 e2)) \<Rightarrow>
               let sent1 = (if e1 = Some ECONNRESET then None else e1);
                   sent2 = e2;
                   err = (if client_first then sent1 else sent2)
               in Some (err, None)
           | other \<Rightarrow> None))"


definition read_fails :: "copy_iter list" where
  "read_fails =
     [\<lparr>deadline_err = None, nr = 5, er = None, nw = 5, ew = None\<rparr>,
      \<lparr>deadline_err = None, nr = 0, er = Some (ErrOther ''i/o timeout''), nw = 0, ew = None\<rparr>]"

definition clean_eof :: "copy_iter list" where
  "clean_eof =
     [\<lparr>deadline_err = None, nr = 5, er = None, nw = 5, ew = None\<rparr>,
      \<lparr>deadline_err = None, nr = 3, er = Some EOF, nw = 3, ew = None\<rparr>]"

section \<open>The tunnel configuration: \<^verbatim>\<open>config.go\<close>\<close>

text \<open>
  \<^verbatim>\<open>netip.Addr\<close> and \<^verbatim>\<open>netip.Prefix\<close> are opaque types of the standard library; the
  configuration is polymorphic in them (\<open>'a\<close> and \<open>'p\<close>).  \<^verbatim>\<open>KeepAlive\<close> and \<^verbatim>\<open>MTU\<close> are Go
  \<^verbatim>\<open>int\<close>s, \<^verbatim>\<open>FwMark\<close> is a \<^verbatim>\<open>uint32\<close>.
\<close>

record 'p PeerConfig =
  PublicKey :: string
  PreSharedKey :: string
  Endpoint :: string
  KeepAlive :: int
  AllowedIPs :: "'p list"

record ('a, 'p) InterfaceConfig =
  PrivateKey :: string
  Addresses :: "'p list"
  DNS :: "'a list"
  MTU :: int
  FwMark :: "32 word"

record ('a, 'p) Configuration =
  Interface :: "('a, 'p) InterfaceConfig"
  Peers :: "'p PeerConfig list"

text \<open>
  What the parser takes from the standard library: the parsers and constructors of
  \<^verbatim>\<open>net/netip\<close>, \<^verbatim>\<open>strings.TrimSpace\<close> and \<^verbatim>\<open>base64.StdEncoding.DecodeString\<close>.  They are
  parameters of the model.
\<close>

record ('a, 'p) stdlib =
  ParsePrefix :: "string \<Rightarrow> error + 'p"
  ParseAddr :: "string \<Rightarrow> error + 'a"
  Is4 :: "'a \<Rightarrow> bool"
  PrefixFrom :: "'a \<Rightarrow> int \<Rightarrow> 'p"
  TrimSpace :: "string \<Rightarrow> string"
  DecodeString :: "string \<Rightarrow> error + byte list"

text \<open>\<^verbatim>\<open>hex.EncodeToString\<close>: two lower-case hexadecimal digits per byte.\<close>

definition hexdigit :: "nat \<Rightarrow> char" where
  "hexdigit d = ''0123456789abcdef'' ! (d mod 16)"

fun EncodeToString :: "byte list \<Rightarrow> string" where
  "EncodeToString [] = []"
| "EncodeToString (b # bs) =
     hexdigit (unat b div 16) # hexdigit (unat b mod 16) # EncodeToString bs"

definition EncodeBase64ToHex :: "('a, 'p) stdlib \<Rightarrow> string \<Rightarrow> error + string" where
  "EncodeBase64ToHex lib key =
     (case DecodeString lib key of
        Inl e \<Rightarrow> Inl (ErrConfig (''invalid base64 string: '' @ key))
      | Inr decoded \<Rightarrow>
          if length decoded \<noteq> 32 then Inl (ErrConfig (''key should be 32 bytes: '' @ key))
          else Inr (EncodeToString decoded))"

text \<open>
  The parser reads the file through the INI library.  A key of a section is modelled by
  what the parser observes of it: its text (\<^verbatim>\<open>String\<close>), its list of comma-separated values
  including those of repeated keys (\<^verbatim>\<open>StringsWithShadows(",")\<close>) and its value as an integer
  (\<^verbatim>\<open>Int\<close>).  A section maps the names of the keys it holds to these keys (the library is
  set up to ignore case; the model writes a name the way the source does), and a file is the
  list of its sections with their names, in order.
\<close>

record ini_key =
  kString :: string
  kStringsWithShadows :: "string list"
  kInt :: "error + int"

type_synonym ini_section = "string \<rightharpoonup> ini_key"

type_synonym ini_file = "(string \<times> ini_section) list"

definition SectionsByName :: "ini_file \<Rightarrow> string \<Rightarrow> ini_section list" where
  "SectionsByName cfg name = map snd (filter (\<lambda>ns. fst ns = name) cfg)"

text \<open>
  \<^verbatim>\<open>GetKey\<close> fails for a key the section does not hold.  \<^verbatim>\<open>Key\<close> never returns \<^verbatim>\<open>nil\<close>: for
  such a key it yields a new key with the empty value.
\<close>

definition GetKey :: "ini_section \<Rightarrow> string \<Rightarrow> ini_key option" where
  "GetKey section name = section name"

definition empty_key :: ini_key where
  "empty_key = \<lparr>kString = [], kStringsWithShadows = [],
                 kInt = Inl (ErrConfig ''not an integer'')\<rparr>"

definition Key :: "ini_section \<Rightarrow> string \<Rightarrow> ini_key" where
  "Key section name = (case section name of None \<Rightarrow> empty_key | Some k \<Rightarrow> k)"

text \<open>
  The loop of \<^verbatim>\<open>ParseInterface\<close> over the values of \<^verbatim>\<open>Address\<close>.  (As \<^verbatim>\<open>Key\<close> never
  returns \<^verbatim>\<open>nil\<close>, the two tests \<^verbatim>\<open>key == nil\<close> of \<^verbatim>\<open>ParseInterface\<close> never succeed.)
\<close>

fun parse_addresses :: "('a, 'p) stdlib \<Rightarrow> string list \<Rightarrow> error + 'p list" where
  "parse_addresses lib [] = Inr []"
| "parse_addresses lib (s # ss) =
     (let str = TrimSpace lib s;
          parsed =
            (case ParsePrefix lib str of
               Inr prefix \<Rightarrow> Inr prefix
             | Inl err \<Rightarrow>
                 (case ParseAddr lib str of
                    Inl err2 \<Rightarrow> Inl err
                  | Inr addr \<Rightarrow>
                      if Is4 lib addr then Inr (PrefixFrom lib addr 32)
                      else Inr (PrefixFrom lib addr 128)))
      in case parsed of
           Inl e \<Rightarrow> Inl e
         | Inr prefix \<Rightarrow>
             (case parse_addresses lib ss of
                Inl e \<Rightarrow> Inl e
              | Inr rest \<Rightarrow> Inr (prefix # rest)))"

text \<open>
  The loops over the values of \<^verbatim>\<open>DNS\<close> and of \<^verbatim>\<open>AllowedIPs\<close> and over the \<^verbatim>\<open>[Peer]\<close>
  sections: each element is parsed in turn, and the first error ends the function.
\<close>

fun parse_all :: "('c \<Rightarrow> error + 'b) \<Rightarrow> 'c list \<Rightarrow> error + 'b list" where
  "parse_all f [] = Inr []"
| "parse_all f (s # ss) =
     (case f s of
        Inl e \<Rightarrow> Inl e
      | Inr v \<Rightarrow>
          (case parse_all f ss of
             Inl e \<Rightarrow> Inl e
           | Inr rest \<Rightarrow> Inr (v # rest)))"

definition ParseInterface ::
  "('a, 'p) stdlib \<Rightarrow> ini_file \<Rightarrow> error + ('a, 'p) InterfaceConfig" where
  "ParseInterface lib cfg =
     (let interfaces = SectionsByName cfg ''Interface'' in
      if length interfaces \<noteq> 1 then Inl (ErrConfig ''only one [Interface] is expected'')
      else
        let iface = interfaces ! 0 in
        (case parse_addresses lib (kStringsWithShadows (Key iface ''Address'')) of
           Inl e \<Rightarrow> Inl e
         | Inr addresses \<Rightarrow>
             (case EncodeBase64ToHex lib (kString (Key iface ''PrivateKey'')) of
                Inl e \<Rightarrow> Inl e
              | Inr privateKeyHex \<Rightarrow>
                  (case (case GetKey iface ''DNS'' of
                           None \<Rightarrow> Inr []
                         | Some k \<Rightarrow> parse_all (ParseAddr lib) (kStringsWithShadows k)) of
                     Inl e \<Rightarrow> Inl e
                   | Inr dns \<Rightarrow>
                       (case (case GetKey iface ''MTU'' of
                                None \<Rightarrow> Inr 0
                              | Some k \<Rightarrow> kInt k) of
                          Inl e \<Rightarrow> Inl e
                        | Inr mtu \<Rightarrow>
                            (case (case GetKey iface ''FwMark'' of
                                     None \<Rightarrow> Inr 0
                                   | Some k \<Rightarrow> kInt k) of
                               Inl e \<Rightarrow> Inl e
                             | Inr fwmark \<Rightarrow>
                                 Inr \<lparr>PrivateKey = privateKeyHex, Addresses = addresses,
                                      DNS = dns, MTU = mtu,
                                      FwMark = word_of_int fwmark\<rparr>))))))"

definition zero_key :: string where
  "zero_key = ''0000000000000000000000000000000000000000000000000000000000000000''"

text \<open>One iteration of the loop of \<^verbatim>\<open>ParsePeers\<close>: the peer of one \<^verbatim>\<open>[Peer]\<close> section.\<close>

definition parse_peer :: "('a, 'p) stdlib \<Rightarrow> ini_section \<Rightarrow> error + 'p PeerConfig" where
  "parse_peer lib section =
     (let peer = \<lparr>PublicKey = [], PreSharedKey = zero_key, Endpoint = [], KeepAlive = 0,
                  AllowedIPs = []\<rparr> in
      case (case GetKey section ''PublicKey'' of
              None \<Rightarrow> Inr peer
            | Some k \<Rightarrow>
                (case EncodeBase64ToHex lib (kString k) of
                   Inl e \<Rightarrow> Inl e
                 | Inr v \<Rightarrow> Inr (peer\<lparr>PublicKey := v\<rparr>))) of
        Inl e \<Rightarrow> Inl e
      | Inr peer1 \<Rightarrow>
     (case (case GetKey section ''PreSharedKey'' of
              None \<Rightarrow> Inr peer1
            | Some k \<Rightarrow>
                (case EncodeBase64ToHex lib (kString k) of
                   Inl e \<Rightarrow> Inl e
                 | Inr v \<Rightarrow> Inr (peer1\<lparr>PreSharedKey := v\<rparr>))) of
        Inl e \<Rightarrow> Inl e
      | Inr peer2 \<Rightarrow>
     (case (case GetKey section ''PersistentKeepalive'' of
              None \<Rightarrow> Inr peer2
            | Some k \<Rightarrow>
                (case kInt k of
                   Inl e \<Rightarrow> Inl e
                 | Inr v \<Rightarrow> Inr (peer2\<lparr>KeepAlive := v\<rparr>))) of
        Inl e \<Rightarrow> Inl e
      | Inr peer3 \<Rightarrow>
     (case (case GetKey section ''AllowedIPs'' of
              None \<Rightarrow> Inr peer3
            | Some k \<Rightarrow>
                (case parse_all (ParsePrefix lib) (kStringsWithShadows k) of
                   Inl e \<Rightarrow> Inl e
                 | Inr ips \<Rightarrow> Inr (peer3\<lparr>AllowedIPs := ips\<rparr>))) of
        Inl e \<Rightarrow> Inl e
      | Inr peer4 \<Rightarrow>
          (case GetKey section ''Endpoint'' of
             None \<Rightarrow> Inr peer4
           | Some k \<Rightarrow> Inr (peer4\<lparr>Endpoint := kString k\<rparr>))))))"

definition ParsePeers :: "('a, 'p) stdlib \<Rightarrow> ini_file \<Rightarrow> error + 'p PeerConfig list" where
  "ParsePeers lib cfg =
     (let sections = SectionsByName cfg ''Peer'' in
      if length sections < 1 then Inl (ErrConfig ''at least one [Peer] is expected'')
      else parse_all (parse_peer lib) sections)"

text \<open>
  \<^verbatim>\<open>ParseConfig\<close>, given what \<^verbatim>\<open>ini.LoadSources\<close> returns for the file at the path.
\<close>

definition ParseConfig ::
  "('a, 'p) stdlib \<Rightarrow> error + ini_file \<Rightarrow> error + ('a, 'p) Configuration" where
  "ParseConfig lib loaded =
     (case loaded of
        Inl e \<Rightarrow> Inl e
      | Inr cfg \<Rightarrow>
          (case ParseInterface lib cfg of
             Inl e \<Rightarrow> Inl e
           | Inr iface \<Rightarrow>
               (case ParsePeers lib cfg of
                  Inl e \<Rightarrow> Inl e
                | Inr peers \<Rightarrow> Inr \<lparr>Interface = iface, Peers = peers\<rparr>)))"

text \<open>
  A configuration file whose only \<^verbatim>\<open>[Peer]\<close> section holds an endpoint and no
  \<^verbatim>\<open>PublicKey\<close>:

  \<^verbatim>\<open>[Interface]\<close>
  \<^verbatim>\<open>PrivateKey = dGhpcyBpcyBhIHRlc3QgcHJpdmF0ZSBleS4uLi4uLi4=\<close>
  \<^verbatim>\<open>Address = 10.10.0.1\<close>
  \<^verbatim>\<open>[Peer]\<close>
  \<^verbatim>\<open>Endpoint = 1.2.3.4:51820\<close>
\<close>

definition text_key :: "string \<Rightarrow> ini_key" where
  "text_key v = \<lparr>kString = v, kStringsWithShadows = [v], kInt = Inl (ErrConfig ''not an integer'')\<rparr>"

definition keyless_peer_file :: ini_file where
  "keyless_peer_file =
     [(''Interface'',
        [''PrivateKey'' \<mapsto> text_key ''dGhpcyBpcyBhIHRlc3QgcHJpdmF0ZSBleS4uLi4uLi4='',
         ''Address'' \<mapsto> text_key ''10.10.0.1'']),
      (''Peer'', [''Endpoint'' \<mapsto> text_key ''1.2.3.4:51820''])]"

definition keyless_peer :: "'p PeerConfig" where
  "keyless_peer =
     \<lparr>PublicKey = [], PreSharedKey = zero_key, Endpoint = ''1.2.3.4:51820'', KeepAlive = 0,
      AllowedIPs = []\<rparr>"

section \<open>Bringing the tunnel up\<close>

text \<open>
  The IPC document that \<^verbatim>\<open>establishWireguard\<close> writes into its buffer before it creates the
  device, one \<^verbatim>\<open>key=value\<close> line after the other.  The text of an allowed prefix
  (\<^verbatim>\<open>netip.Prefix.String\<close>) is a parameter.  The calls that log the first 8 characters of
  the private key and of each public key slice these strings, which panics in Go for a
  string shorter than 8 bytes.
\<close>

definition line :: "string \<Rightarrow> string" where
  "line s = s @ [CHR 0x0A]"

definition peer_lines :: "('p \<Rightarrow> string) \<Rightarrow> 'p PeerConfig \<Rightarrow> string" where
  "peer_lines prefixString peer =
     line (''public_key='' @ PublicKey peer)
     @ line (''persistent_keepalive_interval='' @ Itoa (KeepAlive peer))
     @ line (''preshared_key='' @ PreSharedKey peer)
     @ line (''endpoint='' @ Endpoint peer)
     @ concat (map (\<lambda>cidr. line (''allowed_ip='' @ prefixString cidr)) (AllowedIPs peer))"

fun add_peers :: "('p \<Rightarrow> string) \<Rightarrow> string \<Rightarrow> 'p PeerConfig list \<Rightarrow> string go" where
  "add_peers prefixString request [] = Ok request"
| "add_peers prefixString request (peer # peers) =
     (if length (PublicKey peer) < 8 then Panic
      else add_peers prefixString (request @ peer_lines prefixString peer) peers)"

definition establishWireguard_request ::
  "('p \<Rightarrow> string) \<Rightarrow> ('a, 'p) Configuration \<Rightarrow> 32 word \<Rightarrow> string go" where
  "establishWireguard_request prefixString conf fwmark =
     (if length (PrivateKey (Interface conf)) < 8 then Panic
      else
        add_peers prefixString
          (line (''private_key='' @ PrivateKey (Interface conf))
           @ line (''private_key='' @ PrivateKey (Interface conf))
           @ (if fwmark \<noteq> 0 then line (''fwmark='' @ decimal (unat fwmark)) else [])
           @ line ''jc=10''
           @ line ''jmin=50''
           @ line ''jmax=1000''
           @ line ''s1=0''
           @ line ''s2=0''
           @ line ''h1=1''
           @ line ''h2=2''
           @ line ''h3=3''
           @ line ''h4=4'')
          (Peers conf))"

text \<open>
  The start of \<^verbatim>\<open>WireSocks.Run\<close>, up to the call that creates the device: the MTU and the
  DNS list are overwritten and every peer is prepared.  \<^verbatim>\<open>ParseResolveAddressPort\<close> is not
  under \<^verbatim>\<open>src/\<close>; its result for an endpoint (the text of the resolved address, or an
  error) is the parameter \<open>resolve\<close>.  The address \<^verbatim>\<open>1.1.1.1\<close> of the resolver, as a
  \<^verbatim>\<open>netip.Addr\<close>, is the parameter \<open>resolver\<close>.
\<close>

definition prepare_peer :: "(string \<Rightarrow> error + string) \<Rightarrow> 'p PeerConfig \<Rightarrow> 'p PeerConfig" where
  "prepare_peer resolve peer =
     (let peer1 = peer\<lparr>KeepAlive := 5\<rparr> in
      case resolve (Endpoint peer1) of
        Inr addr \<Rightarrow> peer1\<lparr>Endpoint := addr\<rparr>
      | Inl err \<Rightarrow> peer1)"

definition Run_prepare ::
  "(string \<Rightarrow> error + string) \<Rightarrow> 'a \<Rightarrow> ('a, 'p) Configuration \<Rightarrow> ('a, 'p) Configuration" where
  "Run_prepare resolve resolver conf =
     conf\<lparr>Interface := (Interface conf)\<lparr>MTU := 1330, DNS := [resolver]\<rparr>,
          Peers := map (prepare_peer resolve) (Peers conf)\<rparr>"

text \<open>
  The configuration of the repository's first test file, with a keepalive of 25 seconds.
  An address is written as its text here, so its \<^verbatim>\<open>String\<close> is the identity.
\<close>

definition test_private_key :: string where
  "test_private_key = ''746869732069732061207465737420707269766174652065792e2e2e2e2e2e2e''"

definition test_public_key :: string where
  "test_public_key = ''7468697320697320612074657374207075626c6963206b65792e2e2e2e2e2e2e''"

definition test_peer :: "string PeerConfig" where
  "test_peer =
     \<lparr>PublicKey = test_public_key, PreSharedKey = zero_key, Endpoint = ''1.2.3.4:51820'',
      KeepAlive = 25, AllowedIPs = [''0.0.0.0/0'']\<rparr>"

definition test_conf :: "(string, string) Configuration" where
  "test_conf =
     \<lparr>Interface = \<lparr>PrivateKey = test_private_key, Addresses = [''10.10.0.1/32''],
                   DNS = [''8.8.8.8''], MTU = 0, FwMark = 0\<rparr>,
      Peers = [test_peer]\<rparr>"

subsection \<open>Writing a configuration: \<^verbatim>\<open>Configuration.String\<close>\<close>

text \<open>\<^verbatim>\<open>strings.Join\<close>.\<close>

fun Join :: "string list \<Rightarrow> string \<Rightarrow> string" where
  "Join [] sep = []"
| "Join [s] sep = s"
| "Join (s # ss) sep = s @ sep @ Join ss sep"

text \<open>
  The part of \<^verbatim>\<open>Configuration.String\<close> that writes one peer after the text \<open>b\<close> built so
  far.  The conversion of a key to base64 (\<^verbatim>\<open>EncodeHexToBase64\<close>) and the texts of prefixes
  and addresses are parameters.
\<close>

definition peer_text ::
  "(string \<Rightarrow> error + string) \<Rightarrow> ('p \<Rightarrow> string) \<Rightarrow> string \<Rightarrow> 'p PeerConfig \<Rightarrow> error + string" where
  "peer_text toBase64 prefixString b peer =
     (let b1 = b @ [CHR 0x0A] @ line ''[Peer]'' in
      case (if PublicKey peer \<noteq> [] then
              (case toBase64 (PublicKey peer) of
                 Inl e \<Rightarrow> Inl e
               | Inr pubKeyB64 \<Rightarrow> Inr (b1 @ line (''PublicKey = '' @ pubKeyB64)))
            else Inr b1) of
        Inl e \<Rightarrow> Inl e
      | Inr b2 \<Rightarrow>
     (case (if PreSharedKey peer \<noteq> [] \<and> PreSharedKey peer \<noteq> zero_key then
              (case toBase64 (PreSharedKey peer) of
                 Inl e \<Rightarrow> Inl e
               | Inr pskB64 \<Rightarrow> Inr (b2 @ line (''PresharedKey = '' @ pskB64)))
            else Inr b2) of
        Inl e \<Rightarrow> Inl e
      | Inr b3 \<Rightarrow>
          let b4 = (if 0 < length (AllowedIPs peer)
                    then b3 @ line (''AllowedIPs = ''
                                     @ Join (map prefixString (AllowedIPs peer)) '', '')
                    else b3);
              b5 = (if Endpoint peer \<noteq> [] then b4 @ line (''Endpoint = '' @ Endpoint peer)
                    else b4);
              b6 = (if KeepAlive peer \<noteq> 0
                    then b5 @ line (''PersistentKeepalive = '' @ Itoa (KeepAlive peer))
                    else b5)
          in Inr b6))"

fun peers_text ::
  "(string \<Rightarrow> error + string) \<Rightarrow> ('p \<Rightarrow> string) \<Rightarrow> string \<Rightarrow> 'p PeerConfig list
     \<Rightarrow> error + string" where
  "peers_text toBase64 prefixString b [] = Inr b"
| "peers_text toBase64 prefixString b (peer # peers) =
     (case peer_text toBase64 prefixString b peer of
        Inl e \<Rightarrow> Inl e
      | Inr b1 \<Rightarrow> peers_text toBase64 prefixString b1 peers)"

definition Configuration_String ::
  "(string \<Rightarrow> error + string) \<Rightarrow> ('p \<Rightarrow> string) \<Rightarrow> ('a \<Rightarrow> string)
     \<Rightarrow> ('a, 'p) Configuration \<Rightarrow> error + string" where
  "Configuration_String toBase64 prefixString addrString c =
     (let b = line ''[Interface]'' in
      case (if PrivateKey (Interface c) \<noteq> [] then
              (case toBase64 (PrivateKey (Interface c)) of
                 Inl e \<Rightarrow> Inl e
               | Inr privKeyB64 \<Rightarrow> Inr (b @ line (''PrivateKey = '' @ privKeyB64)))
            else Inr b) of
        Inl e \<Rightarrow> Inl e
      | Inr b1 \<Rightarrow>
          let b2 = (if 0 < length (Addresses (Interface c))
                    then b1 @ line (''Address = ''
                                     @ Join (map prefixString (Addresses (Interface c))) '', '')
                    else b1);
              b3 = (if 0 < length (DNS (Interface c))
                    then b2 @ line (''DNS = '' @ Join (map addrString (DNS (Interface c))) '', '')
                    else b2);
              b4 = (if MTU (Interface c) \<noteq> 0
                    then b3 @ line (''MTU = '' @ Itoa (MTU (Interface c)))
                    else b3)
          in peers_text toBase64 prefixString b4 (Peers c))"

subsection \<open>The encodings of keys\<close>

text \<open>
  The standard encodings, for running examples: \<^verbatim>\<open>hex.DecodeString\<close>, and the encoder and
  decoder of \<^verbatim>\<open>base64.StdEncoding\<close> on text in groups of four characters with \<^verbatim>\<open>=\<close>
  padding.
\<close>

fun index_of :: "'b list \<Rightarrow> 'b \<Rightarrow> nat option" where
  "index_of [] x = None"
| "index_of (y # ys) x = (if x = y then Some 0 else map_option Suc (index_of ys x))"

definition hex_value :: "char \<Rightarrow> nat option" where
  "hex_value c =
     (case index_of ''0123456789abcdef'' c of
        Some v \<Rightarrow> Some v
      | None \<Rightarrow> map_option (\<lambda>v. v + 10) (index_of ''ABCDEF'' c))"

fun hex_DecodeString :: "string \<Rightarrow> byte list option" where
  "hex_DecodeString [] = Some []"
| "hex_DecodeString [c] = None"
| "hex_DecodeString (c # d # r) =
     (case (hex_value c, hex_value d, hex_DecodeString r) of
        (Some h, Some l, Some bs) \<Rightarrow> Some (of_nat (16 * h + l) # bs)
      | other \<Rightarrow> None)"

definition base64_alphabet :: string where
  "base64_alphabet = ''ABCDEFGHIJKLMNOPQRSTUVWXYZabcdefghijklmnopqrstuvwxyz0123456789+/''"

definition b64 :: "nat \<Rightarrow> char" where
  "b64 n = base64_alphabet ! (n mod 64)"

fun base64_EncodeToString :: "byte list \<Rightarrow> string" where
  "base64_EncodeToString [] = []"
| "base64_EncodeToString [a] =
     [b64 (unat a div 4), b64 (unat a mod 4 * 16), CHR ''='', CHR ''='']"
| "base64_EncodeToString [a, b] =
     [b64 (unat a div 4), b64 (unat a mod 4 * 16 + unat b div 16), b64 (unat b mod 16 * 4),
      CHR ''='']"
| "base64_EncodeToString (a # b # c # r) =
     [b64 (unat a div 4), b64 (unat a mod 4 * 16 + unat b div 16),
      b64 (unat b mod 16 * 4 + unat c div 64), b64 (unat c mod 64)]
     @ base64_EncodeToString r"

fun base64_DecodeString :: "string \<Rightarrow> byte list option" where
  "base64_DecodeString [] = Some []"
| "base64_DecodeString (a # b # c # d # r) =
     (case (index_of base64_alphabet a, index_of base64_alphabet b) of
        (Some x, Some y) \<Rightarrow>
          if c = CHR ''='' then
            (if d = CHR ''='' \<and> r = [] then Some [of_nat (x * 4 + y div 16)] else None)
          else
            (case index_of base64_alphabet c of
               None \<Rightarrow> None
             | Some z \<Rightarrow>
                 if d = CHR ''='' then
                   (if r = []
                    then Some [of_nat (x * 4 + y div 16), of_nat (y mod 16 * 16 + z div 4)]
                    else None)
                 else
                   (case (index_of base64_alphabet d, base64_DecodeString r) of
                      (Some w, Some bs) \<Rightarrow>
                        Some (of_nat (x * 4 + y div 16) # of_nat (y mod 16 * 16 + z div 4)
                              # of_nat (z mod 4 * 64 + w) # bs)
                    | other \<Rightarrow> None))
      | other \<Rightarrow> None)"
| "base64_DecodeString other = None"

text \<open>
  Modelled from the spec: \<^verbatim>\<open>EncodeHexToBase64\<close> is not under \<^verbatim>\<open>src/\<close>.  The specification
  keeps a key as the lower-case hexadecimal text of 32 bytes and writes it into the file in
  base64; the function decodes the hexadecimal text and encodes the bytes in base64, and
  fails on text that is not hexadecimal.
\<close>

definition EncodeHexToBase64 :: "string \<Rightarrow> error + string" where
  "EncodeHexToBase64 key =
     (case hex_DecodeString key of
        None \<Rightarrow> Inl (ErrConfig (''invalid hex string: '' @ key))
      | Some decoded \<Rightarrow> Inr (base64_EncodeToString decoded))"

subsection \<open>A configuration with a firewall mark\<close>

text \<open>
  A library for the example below, in which an address or prefix is its own text: a
  prefix is a text with a slash, an address one without, an IPv4 address one without a
  colon.
\<close>

definition trim_spaces :: "string \<Rightarrow> string" where
  "trim_spaces s =
     rev (dropWhile (\<lambda>c. c = CHR '' '') (rev (dropWhile (\<lambda>c. c = CHR '' '') s)))"

definition example_lib :: "(string, string) stdlib" where
  "example_lib =
     \<lparr>ParsePrefix = (\<lambda>s. if CHR ''/'' \<in> set s then Inr s else Inl (ErrConfig ''no slash'')),
      ParseAddr = (\<lambda>s. if CHR ''/'' \<in> set s then Inl (ErrConfig ''unexpected slash'') else Inr s),
      Is4 = (\<lambda>a. CHR '':'' \<notin> set a),
      PrefixFrom = (\<lambda>a bits. a @ ''/'' @ Itoa bits),
      TrimSpace = trim_spaces,
      DecodeString = (\<lambda>s. case base64_DecodeString s of
                              None \<Rightarrow> Inl (ErrConfig ''illegal base64 data'')
                            | Some bs \<Rightarrow> Inr bs)\<rparr>"

definition int_key :: "string \<Rightarrow> int \<Rightarrow> ini_key" where
  "int_key v i = \<lparr>kString = v, kStringsWithShadows = [v], kInt = Inr i\<rparr>"

text \<open>
  The file

  \<^verbatim>\<open>[Interface]\<close>
  \<^verbatim>\<open>PrivateKey = dGhpcyBpcyBhIHRlc3QgcHJpdmF0ZSBleS4uLi4uLi4=\<close>
  \<^verbatim>\<open>Address = 10.10.0.1\<close>
  \<^verbatim>\<open>DNS = 8.8.8.8\<close>
  \<^verbatim>\<open>MTU = 1420\<close>
  \<^verbatim>\<open>FwMark = 51820\<close>
  \<^verbatim>\<open>[Peer]\<close>
  \<^verbatim>\<open>PublicKey = dGhpcyBpcyBhIHRlc3QgcHVibGljIGtleS4uLi4uLi4=\<close>
  \<^verbatim>\<open>AllowedIPs = 0.0.0.0/0\<close>
  \<^verbatim>\<open>Endpoint = 1.2.3.4:51820\<close>
  \<^verbatim>\<open>PersistentKeepalive = 25\<close>

  as the INI library presents it, the configuration parsed from it, the text that
  \<^verbatim>\<open>Configuration.String\<close> writes for this configuration, and that text as the INI library
  presents it.
\<close>

definition fwmark_peer_section :: ini_section where
  "fwmark_peer_section =
     [''PublicKey'' \<mapsto> text_key ''dGhpcyBpcyBhIHRlc3QgcHVibGljIGtleS4uLi4uLi4='',
      ''AllowedIPs'' \<mapsto> text_key ''0.0.0.0/0'',
      ''Endpoint'' \<mapsto> text_key ''1.2.3.4:51820'',
      ''PersistentKeepalive'' \<mapsto> int_key ''25'' 25]"

definition fwmark_file :: ini_file where
  "fwmark_file =
     [(''Interface'',
        [''PrivateKey'' \<mapsto> text_key ''dGhpcyBpcyBhIHRlc3QgcHJpdmF0ZSBleS4uLi4uLi4='',
         ''Address'' \<mapsto> text_key ''10.10.0.1'',
         ''DNS'' \<mapsto> text_key ''8.8.8.8'',
         ''MTU'' \<mapsto> int_key ''1420'' 1420,
         ''FwMark'' \<mapsto> int_key ''51820'' 51820]),
      (''Peer'', fwmark_peer_section)]"

definition fwmark_conf :: "(string, string) Configuration" where
  "fwmark_conf =
     \<lparr>Interface = \<lparr>PrivateKey = test_private_key, Addresses = [''10.10.0.1/32''],
                   DNS = [''8.8.8.8''], MTU = 1420, FwMark = 51820\<rparr>,
      Peers = [test_peer]\<rparr>"

definition fwmark_text :: string where
  "fwmark_text =
     line ''[Interface]''
     @ line ''PrivateKey = dGhpcyBpcyBhIHRlc3QgcHJpdmF0ZSBleS4uLi4uLi4=''
     @ line ''Address = 10.10.0.1/32''
     @ line ''DNS = 8.8.8.8''
     @ line ''MTU = 1420''
     @ line []
     @ line ''[Peer]''
     @ line ''PublicKey = dGhpcyBpcyBhIHRlc3QgcHVibGljIGtleS4uLi4uLi4=''
     @ line ''AllowedIPs = 0.0.0.0/0''
     @ line ''Endpoint = 1.2.3.4:51820''
     @ line ''PersistentKeepalive = 25''"

definition written_file :: ini_file where
  "written_file =
     [(''Interface'',
        [''PrivateKey'' \<mapsto> text_key ''dGhpcyBpcyBhIHRlc3QgcHJpdmF0ZSBleS4uLi4uLi4='',
         ''Address'' \<mapsto> text_key ''10.10.0.1/32'',
         ''DNS'' \<mapsto> text_key ''8.8.8.8'',
         ''MTU'' \<mapsto> int_key ''1420'' 1420]),
      (''Peer'', fwmark_peer_section)]"

definition unresolved :: "string \<Rightarrow> error + string" where
  "unresolved endpoint = Inl (ErrOther ''no such host'')"

definition obfuscation_lines :: string where
  "obfuscation_lines =
     line ''jc=10'' @ line ''jmin=50'' @ line ''jmax=1000'' @ line ''s1=0'' @ line ''s2=0''
     @ line ''h1=1'' @ line ''h2=2'' @ line ''h3=3'' @ line ''h4=4''"

section \<open>Properties\<close>

lemma isSocks4a_IPv4: "isSocks4a \<lparr>Version = v, Command = c,
    DestAddr = \<lparr>Name = n, IP = IPv4 a b c' d, Port = p\<rparr>, User = u\<rparr> = Some False"
  by (simp add: isSocks4a_def IPv4_def v4InV6Prefix_def)

lemma NewRequest_never_socks4a:
  assumes "NewRequest r = Ok (req, rest)"
  shows "Name (DestAddr req) = []"
  using assms
  by (auto simp: NewRequest_def Let_def isSocks4a_IPv4 split: sum.splits prod.splits if_splits)

text \<open>
  Claim C1.  The specification says that a request \<^verbatim>\<open>04 01 port 0.0.0.x user 00 host 00\<close> with
  \<open>x \<noteq> 0\<close> is parsed as a SOCKS4a CONNECT whose destination carries the domain \<open>host\<close>.  The
  code tests the first four bytes of the 16-byte form that \<^verbatim>\<open>net.IPv4\<close> returns, which are
  always zero, so the SOCKS4a marker is never recognised: on the request of scenario 3 the
  parsed destination has an empty name, the address \<open>0.0.0.1\<close> and port 80, and the seven
  bytes \<^verbatim>\<open>"ex.com\0"\<close> stay unread in the stream.
\<close>

theorem C1_NewRequest_socks4a_domain_not_read:
  "NewRequest socks4a_example =
     Ok (\<lparr>Version = 0x04, Command = 0x01,
          DestAddr = \<lparr>Name = [],
                      IP = [0, 0, 0, 0, 0, 0, 0, 0, 0, 0, 0xff, 0xff, 0, 0, 0, 1],
                      Port = 80\<rparr>,
          User = []\<rparr>,
         [0x65, 0x78, 0x2e, 0x63, 0x6f, 0x6d, 0x00])"
  by (simp add: NewRequest_def socks4a_example_def ReadFull_def readUntilNull_def
      Socks4Version_def Uint16_def IPv4_def v4InV6Prefix_def isSocks4a_def Let_def)




subsection \<open>The embedded UDP relay\<close>

lemma ReadFull_append: "ReadFull n r = Inr (x, r') \<Longrightarrow> r = x @ r' \<and> length x = n"
  by (auto simp: ReadFull_def split: if_splits)

lemma readPort_suffix: "readPort a r = Inr (a', r') \<Longrightarrow> \<exists>h. r = h @ r' \<and> length h = 2"
  by (auto simp: readPort_def split: sum.splits dest!: ReadFull_append)

lemma readAddr_suffix: "readAddr r = Inr (a, rest) \<Longrightarrow> \<exists>h. r = h @ rest \<and> 3 \<le> length h"
  by (auto simp: readAddr_def split: list.splits if_splits sum.splits
      dest!: ReadFull_append readPort_suffix)

lemma from_client_sent:
  assumes "from_client env st buf = Next st' (Some (payload, dest))"
  shows "\<exists>addr. 3 \<le> length buf \<and> readAddr (drop 3 buf) = Inr (addr, payload)
           \<and> targetAddr st' = Some dest"
  using assms
  by (auto simp: from_client_def Let_def split: if_splits sum.splits option.splits)

lemma from_target_sent:
  assumes "from_target env st source buf = Next st' (Some (payload, dest))"
  shows "\<exists>p. replyPrefix st' = Some p \<and> payload = p @ buf \<and> dest = source
           \<and> (replyPrefix st = None \<or> replyPrefix st = Some p)"
  using assms
  by (auto simp: from_target_def Let_def split: if_splits sum.splits option.splits)

lemma relay_iteration_sent:
  assumes "relay_iteration env st (Datagram data sender wres) = Next st' (Some sent)"
  shows "if is_from_client env st sender
         then from_client env
                (case sourceAddr st of
                   None \<Rightarrow> st\<lparr>sourceAddr := Some sender, wantSource := netAddrString env sender\<rparr>
                 | Some a \<Rightarrow> st)
                (take (maxUdpPacket env) data) = Next st' (Some sent)
         else (\<exists>source. sourceAddr st = Some source \<and>
                from_target env st source (take (maxUdpPacket env) data) = Next st' (Some sent))"
  using assms
  by (auto simp: relay_iteration_def is_from_client_def Let_def
      split: if_splits option.splits relay_step.splits)

lemma relay_first_request:
  "relay_iteration scenario_env relay_init (Datagram dns_request app_addr None)
     = Next relay_associated (Some ([0xAA, 0xBB], dns_addr))"
  by (simp add: relay_iteration_def relay_init_def relay_associated_def scenario_env_def
      from_client_def readAddr_def readPort_def ReadFull_def Uint16_def app_addr_def dns_addr_def
      dns_request_def decimal.simps digit_def Let_def)

lemma relay_first_reply:
  "relay_iteration scenario_env relay_associated (Datagram [0xCC, 0xDD] dns_addr None)
     = Next (relay_associated
               \<lparr>replyPrefix := Some [0, 0, 0, 0x01, 0x08, 0x08, 0x08, 0x08, 0x00, 0x35]\<rparr>)
         (Some ([0, 0, 0, 0x01, 0x08, 0x08, 0x08, 0x08, 0x00, 0x35, 0xCC, 0xDD], app_addr))"
  by (simp add: relay_iteration_def relay_associated_def scenario_env_def from_target_def
      app_addr_def dns_addr_def decimal.simps digit_def Let_def)

text \<open>
  Claim C7, as amended.  Whenever an iteration of the relay sends a datagram: if the
  received datagram is the client's, the bytes written to the target are the received bytes
  without their 3 leading bytes and without the address header (\<^verbatim>\<open>ATYP\<close>, address, port, at
  least 3 bytes) that \<^verbatim>\<open>readAddr\<close> consumes after them, that is the \<^verbatim>\<open>DATA\<close> field alone;
  otherwise the datagram goes to the client source address and is exactly the cached reply
  prefix followed by the received bytes.
\<close>

theorem C7_relay_frames:
  assumes "relay_iteration env st (Datagram data sender wres) = Next st' (Some (payload, dest))"
  shows "if is_from_client env st sender
         then (\<exists>rsv_frag header addr.
                 take (maxUdpPacket env) data = rsv_frag @ header @ payload
                 \<and> length rsv_frag = 3 \<and> 3 \<le> length header
                 \<and> readAddr (header @ payload) = Inr (addr, payload)
                 \<and> targetAddr st' = Some dest)
         else (\<exists>prefix.
                 payload = prefix @ take (maxUdpPacket env) data
                 \<and> replyPrefix st' = Some prefix
                 \<and> (replyPrefix st = None \<or> replyPrefix st = Some prefix)
                 \<and> sourceAddr st = Some dest)"
proof (cases "is_from_client env st sender")
  case True
  define buf where "buf = take (maxUdpPacket env) data"
  from relay_iteration_sent [OF assms] True obtain st1 where
    "from_client env st1 buf = Next st' (Some (payload, dest))"
    unfolding buf_def by auto
  from from_client_sent [OF this] obtain addr where
    len: "3 \<le> length buf" and ra: "readAddr (drop 3 buf) = Inr (addr, payload)"
    and tg: "targetAddr st' = Some dest"
    by blast
  from readAddr_suffix [OF ra] obtain h where h: "drop 3 buf = h @ payload" "3 \<le> length h"
    by blast
  have split: "buf = take 3 buf @ h @ payload"
    using h(1) by (metis append_take_drop_id)
  have three: "length (take 3 buf) = 3"
    using len by simp
  have parsed: "readAddr (h @ payload) = Inr (addr, payload)"
    using ra h(1) by simp
  have "\<exists>rsv_frag header addr.
          buf = rsv_frag @ header @ payload \<and> length rsv_frag = 3 \<and> 3 \<le> length header
          \<and> readAddr (header @ payload) = Inr (addr, payload) \<and> targetAddr st' = Some dest"
    using split three h(2) parsed tg by blast
  then show ?thesis
    using True unfolding buf_def by simp
next
  case False
  from relay_iteration_sent [OF assms] False obtain source where
    "sourceAddr st = Some source"
    "from_target env st source (take (maxUdpPacket env) data) = Next st' (Some (payload, dest))"
    by auto
  with from_target_sent [OF this(2)] False show ?thesis
    by auto
qed

theorem C7_relay_frames_witness:
  "relay_iteration scenario_env relay_init (Datagram dns_request app_addr None)
     = Next relay_associated (Some ([0xAA, 0xBB], dns_addr))
   \<and> is_from_client scenario_env relay_init app_addr
   \<and> (\<exists>rsv_frag header addr.
         dns_request = rsv_frag @ header @ [0xAA, 0xBB]
         \<and> length rsv_frag = 3 \<and> 3 \<le> length header
         \<and> readAddr (header @ [0xAA, 0xBB]) = Inr (addr, [0xAA, 0xBB]))
   \<and> relay_iteration scenario_env relay_associated (Datagram [0xCC, 0xDD] dns_addr None)
     = Next (relay_associated
               \<lparr>replyPrefix := Some [0, 0, 0, 0x01, 0x08, 0x08, 0x08, 0x08, 0x00, 0x35]\<rparr>)
         (Some ([0, 0, 0, 0x01, 0x08, 0x08, 0x08, 0x08, 0x00, 0x35, 0xCC, 0xDD], app_addr))
   \<and> \<not> is_from_client scenario_env relay_associated dns_addr
   \<and> (\<exists>prefix. [0, 0, 0, 0x01, 0x08, 0x08, 0x08, 0x08, 0x00, 0x35, 0xCC, 0xDD]
                  = prefix @ [0xCC, 0xDD]
         \<and> replyPrefix (relay_associated
               \<lparr>replyPrefix := Some [0, 0, 0, 0x01, 0x08, 0x08, 0x08, 0x08, 0x00, 0x35]\<rparr>)
           = Some prefix)"
proof -
  have c: "is_from_client scenario_env relay_init app_addr"
    by (simp add: is_from_client_def relay_init_def)
  have t: "\<not> is_from_client scenario_env relay_associated dns_addr"
    by (simp add: is_from_client_def relay_associated_def scenario_env_def dns_addr_def
        decimal.simps digit_def)
  have m: "take (maxUdpPacket scenario_env) dns_request = dns_request"
    "take (maxUdpPacket scenario_env) [0xCC, 0xDD] = [0xCC, 0xDD :: byte]"
    by (simp_all add: scenario_env_def dns_request_def)
  from C7_relay_frames [OF relay_first_request] c m(1)
  have a: "\<exists>rsv_frag header addr.
         dns_request = rsv_frag @ header @ [0xAA, 0xBB]
         \<and> length rsv_frag = 3 \<and> 3 \<le> length header
         \<and> readAddr (header @ [0xAA, 0xBB]) = Inr (addr, [0xAA, 0xBB])"
    by auto
  from C7_relay_frames [OF relay_first_reply] t m(2)
  have b: "\<exists>prefix. [0, 0, 0, 0x01, 0x08, 0x08, 0x08, 0x08, 0x00, 0x35, 0xCC, 0xDD]
                  = prefix @ [0xCC, 0xDD]
         \<and> replyPrefix (relay_associated
               \<lparr>replyPrefix := Some [0, 0, 0, 0x01, 0x08, 0x08, 0x08, 0x08, 0x00, 0x35]\<rparr>)
           = Some prefix"
    by auto
  show ?thesis
    using relay_first_request relay_first_reply c t a b by blast
qed

text \<open>
  Claim C7 as stated fails for the direction from the client to the target: of the datagram
  \<^verbatim>\<open>00 00 00 01 08 08 08 08 00 35 AA BB\<close> the relay writes the two bytes \<^verbatim>\<open>AA BB\<close> to
  \<^verbatim>\<open>8.8.8.8:53\<close>, not the nine bytes that remain when only the 3 leading bytes are stripped.
\<close>

theorem C7_address_header_stripped_counterexample:
  "embedHandleAssociate scenario_env [Datagram dns_request app_addr None]
     = ([([0xAA, 0xBB], dns_addr)], None)
   \<and> drop 3 dns_request = [0x01, 0x08, 0x08, 0x08, 0x08, 0x00, 0x35, 0xAA, 0xBB]"
  by (simp add: embedHandleAssociate_def relay_first_request) (simp add: dns_request_def)

lemma relay_iteration_client:
  assumes "is_from_client env st sender"
  shows "relay_iteration env st (Datagram data sender wres) =
     (let buf = take (maxUdpPacket env) data;
          st1 = (case sourceAddr st of
                   None \<Rightarrow> st\<lparr>sourceAddr := Some sender, wantSource := netAddrString env sender\<rparr>
                 | Some a \<Rightarrow> st)
      in if length buf < 3 then Next st1 None
         else
           (case readAddr (drop 3 buf) of
              Inl e \<Rightarrow> Next st1 None
            | Inr (addr, payload) \<Rightarrow>
                let st2 = (case targetAddr st of
                             None \<Rightarrow> st1\<lparr>targetAddr := Some (target_of st addr),
                                           wantTarget := netAddrString env (target_of st addr)\<rparr>
                           | Some t \<Rightarrow> st1)
                in if \<not> is_target env st addr then Next st2 None
                   else (case wres of
                           Some e \<Rightarrow> Return e
                         | None \<Rightarrow> Next st2 (Some (payload, target_of st addr)))))"
proof -
  define st1 where "st1 = (case sourceAddr st of
                   None \<Rightarrow> st\<lparr>sourceAddr := Some sender, wantSource := netAddrString env sender\<rparr>
                 | Some a \<Rightarrow> st)"
  have w: "wantSource st1 = netAddrString env sender"
    using assms by (simp add: st1_def is_from_client_def split: option.splits)
  have t: "targetAddr st1 = targetAddr st" "wantTarget st1 = wantTarget st"
    by (simp_all add: st1_def split: option.splits)
  have fc: "from_client env st1 buf =
     (if length buf < 3 then Next st1 None
         else
           (case readAddr (drop 3 buf) of
              Inl e \<Rightarrow> Next st1 None
            | Inr (addr, payload) \<Rightarrow>
                let st2 = (case targetAddr st of
                             None \<Rightarrow> st1\<lparr>targetAddr := Some (target_of st addr),
                                           wantTarget := netAddrString env (target_of st addr)\<rparr>
                           | Some t \<Rightarrow> st1)
                in if \<not> is_target env st addr then Next st2 None
                   else Next st2 (Some (payload, target_of st addr))))" for buf
    by (simp add: from_client_def t target_of_def is_target_def Let_def
        split: sum.splits option.splits)
  show ?thesis
    unfolding relay_iteration_def udp_event.case Let_def st1_def [symmetric]
    by (simp add: w fc Let_def split: sum.splits option.splits)
qed



lemma take_three: "3 \<le> m \<Longrightarrow> take m (a # b # c # rest) = a # b # c # take (m - 3) rest"
  by (cases m; cases "m - 1"; cases "m - 2") auto

lemma relay_iteration_client3:
  assumes "is_from_client env st sender" and "3 \<le> maxUdpPacket env"
  shows "relay_iteration env st (Datagram (rsv1 # rsv2 # frag # rest) sender wres) =
     (let st1 = (case sourceAddr st of
                   None \<Rightarrow> st\<lparr>sourceAddr := Some sender, wantSource := netAddrString env sender\<rparr>
                 | Some a \<Rightarrow> st)
      in case readAddr (take (maxUdpPacket env - 3) rest) of
              Inl e \<Rightarrow> Next st1 None
            | Inr (addr, payload) \<Rightarrow>
                let st2 = (case targetAddr st of
                             None \<Rightarrow> st1\<lparr>targetAddr := Some (target_of st addr),
                                           wantTarget := netAddrString env (target_of st addr)\<rparr>
                           | Some t \<Rightarrow> st1)
                in if \<not> is_target env st addr then Next st2 None
                   else (case wres of
                           Some e \<Rightarrow> Return e
                         | None \<Rightarrow> Next st2 (Some (payload, target_of st addr))))"
  using assms(2) by (simp add: relay_iteration_client [OF assms(1)] take_three Let_def)

text \<open>
  Claim C8, as amended.  The relay never looks at the first three bytes of a datagram.  For
  every datagram of at least three bytes from the client source address, whatever its
  \<^verbatim>\<open>RSV\<close> and \<^verbatim>\<open>FRAG\<close> bytes are: first, the iteration does exactly what it does for the same
  datagram with \<^verbatim>\<open>RSV = 0\<close> and \<^verbatim>\<open>FRAG = 0\<close>.  Second, when the bytes after the third (as far
  as the buffer holds them) parse as an address followed by \<^verbatim>\<open>DATA\<close>, and the address is the
  target, the relay writes exactly \<^verbatim>\<open>DATA\<close> to the target.  Third, the datagram is dropped
  (the loop goes on with nothing written) only if the buffer holds fewer than three of its
  bytes, the address does not parse, or the address is not the target.
\<close>

theorem C8_relay_ignores_frag:
  assumes "is_from_client env st sender"
  shows "relay_iteration env st (Datagram (rsv1 # rsv2 # frag # rest) sender wres)
           = relay_iteration env st (Datagram (0 # 0 # 0 # rest) sender wres)
     \<and> (3 \<le> maxUdpPacket env
          \<and> readAddr (take (maxUdpPacket env - 3) rest) = Inr (addr, payload)
          \<and> is_target env st addr
        \<longrightarrow> (\<exists>st'. targetAddr st' = Some (target_of st addr)
                \<and> relay_iteration env st (Datagram (rsv1 # rsv2 # frag # rest) sender None)
                    = Next st' (Some (payload, target_of st addr))))
     \<and> (relay_iteration env st (Datagram (rsv1 # rsv2 # frag # rest) sender wres) = Next st'' None
        \<longrightarrow> maxUdpPacket env < 3
            \<or> (\<exists>e. readAddr (take (maxUdpPacket env - 3) rest) = Inl e)
            \<or> (\<exists>a p. readAddr (take (maxUdpPacket env - 3) rest) = Inr (a, p)
                  \<and> \<not> is_target env st a))"
proof (intro conjI impI)
  show "relay_iteration env st (Datagram (rsv1 # rsv2 # frag # rest) sender wres)
           = relay_iteration env st (Datagram (0 # 0 # 0 # rest) sender wres)"
  proof (cases "3 \<le> maxUdpPacket env")
    case True
    then show ?thesis
      by (simp only: relay_iteration_client3 [OF assms True])
  next
    case False
    then show ?thesis
      by (simp add: relay_iteration_client [OF assms])
  qed
next
  assume a: "3 \<le> maxUdpPacket env
          \<and> readAddr (take (maxUdpPacket env - 3) rest) = Inr (addr, payload)
          \<and> is_target env st addr"
  then have m: "3 \<le> maxUdpPacket env" by simp
  have "targetAddr (case targetAddr st of
           None \<Rightarrow> (case sourceAddr st of
                   None \<Rightarrow> st\<lparr>sourceAddr := Some sender, wantSource := netAddrString env sender\<rparr>
                 | Some a \<Rightarrow> st)\<lparr>targetAddr := Some (target_of st addr),
                                           wantTarget := netAddrString env (target_of st addr)\<rparr>
         | Some t \<Rightarrow> (case sourceAddr st of
                   None \<Rightarrow> st\<lparr>sourceAddr := Some sender, wantSource := netAddrString env sender\<rparr>
                 | Some a \<Rightarrow> st)) = Some (target_of st addr)"
    by (simp add: target_of_def split: option.splits)
  with a show "\<exists>st'. targetAddr st' = Some (target_of st addr)
                \<and> relay_iteration env st (Datagram (rsv1 # rsv2 # frag # rest) sender None)
                    = Next st' (Some (payload, target_of st addr))"
    by (simp add: relay_iteration_client3 [OF assms m] Let_def)
next
  assume d: "relay_iteration env st (Datagram (rsv1 # rsv2 # frag # rest) sender wres) = Next st'' None"
  show "maxUdpPacket env < 3
            \<or> (\<exists>e. readAddr (take (maxUdpPacket env - 3) rest) = Inl e)
            \<or> (\<exists>a p. readAddr (take (maxUdpPacket env - 3) rest) = Inr (a, p)
                  \<and> \<not> is_target env st a)"
  proof (cases "3 \<le> maxUdpPacket env")
    case True
    show ?thesis
    proof (cases "readAddr (take (maxUdpPacket env - 3) rest)")
      case (Inl e)
      then show ?thesis by simp
    next
      case (Inr r)
      obtain a p where r: "r = (a, p)" by (cases r)
      have "\<not> is_target env st a"
      proof
        assume "is_target env st a"
        with d Inr r show False
          by (simp add: relay_iteration_client3 [OF assms True] Let_def split: option.splits)
      qed
      with Inr r show ?thesis by simp
    qed
  next
    case False
    then show ?thesis by simp
  qed
qed

theorem C8_relay_ignores_frag_witness:
  "is_from_client scenario_env relay_init app_addr
   \<and> 3 \<le> maxUdpPacket scenario_env
   \<and> readAddr (take (maxUdpPacket scenario_env - 3)
                [0x01, 0x08, 0x08, 0x08, 0x08, 0x00, 0x35, 0xAA, 0xBB])
       = Inr (\<lparr>Name = [], IP = [8, 8, 8, 8], Port = 53\<rparr>, [0xAA, 0xBB])
   \<and> is_target scenario_env relay_init \<lparr>Name = [], IP = [8, 8, 8, 8], Port = 53\<rparr>
   \<and> relay_iteration scenario_env relay_init
       (Datagram [0x00, 0x00, 0x07, 0x01, 0x08, 0x08, 0x08, 0x08, 0x00, 0x35, 0xAA, 0xBB]
          app_addr None)
     = Next relay_associated (Some ([0xAA, 0xBB], dns_addr))"
proof -
  have c: "is_from_client scenario_env relay_init app_addr"
    by (simp add: is_from_client_def relay_init_def)
  have m: "3 \<le> maxUdpPacket scenario_env"
    by (simp add: scenario_env_def)
  have r: "readAddr (take (maxUdpPacket scenario_env - 3)
                [0x01, 0x08, 0x08, 0x08, 0x08, 0x00, 0x35, 0xAA, 0xBB])
       = Inr (\<lparr>Name = [], IP = [8, 8, 8, 8], Port = 53\<rparr>, [0xAA, 0xBB])"
    by (simp add: scenario_env_def readAddr_def readPort_def ReadFull_def Uint16_def)
  have t: "is_target scenario_env relay_init \<lparr>Name = [], IP = [8, 8, 8, 8], Port = 53\<rparr>"
    by (simp add: is_target_def scenario_env_def relay_init_def)
  have "relay_iteration scenario_env relay_init
       (Datagram [0x00, 0x00, 0x07, 0x01, 0x08, 0x08, 0x08, 0x08, 0x00, 0x35, 0xAA, 0xBB]
          app_addr None)
     = Next relay_associated (Some ([0xAA, 0xBB], dns_addr))"
    using relay_first_request
      C8_relay_ignores_frag [OF c, of 0 0 7 "[0x01, 0x08, 0x08, 0x08, 0x08, 0x00, 0x35, 0xAA, 0xBB]"
        None "\<lparr>Name = [], IP = [8, 8, 8, 8], Port = 53\<rparr>" "[0xAA, 0xBB]"] m r t
    by (auto simp: dns_request_def target_of_def relay_init_def dns_addr_def)
  with c m r t show ?thesis
    by blast
qed

text \<open>
  Claim C8 as stated fails: the datagram \<^verbatim>\<open>00 00 01 01 08 08 08 08 00 35 EE\<close> of the client,
  whose \<^verbatim>\<open>FRAG\<close> byte is 1, is not dropped; its data byte \<^verbatim>\<open>EE\<close> is written to
  \<^verbatim>\<open>8.8.8.8:53\<close>.
\<close>

theorem C8_fragment_forwarded_counterexample:
  "embedHandleAssociate scenario_env [Datagram fragment_request app_addr None]
     = ([([0xEE], dns_addr)], None)"
  by (simp add: embedHandleAssociate_def relay_iteration_def relay_init_def scenario_env_def
      from_client_def readAddr_def readPort_def ReadFull_def Uint16_def app_addr_def dns_addr_def
      fragment_request_def decimal.simps digit_def Let_def)

subsection \<open>The forwarding handler\<close>




lemma copyConnTimeout_oversized_read_panics:
  assumes "buf \<noteq> Some 0" "deadline_err it = None" "0 < nr it" "int (len buf) < nr it"
  shows "copyConnTimeout buf (it # its) = Some Panics"
  using assms by (simp add: copyConnTimeout_def)

lemma handler_returns_nil_after_dial:
  assumes "handler None client_first to_tunnel to_client = Some (warned, returned)"
  shows "returned = None"
  using assms
  by (auto simp: handler_def Let_def split: option.splits copy_outcome.splits)

text \<open>
  Claim C2.  The specification asks the handler to return the first error of a copier that
  is not \<^verbatim>\<open>nil\<close>.  The code receives that error from the channel, logs it as a warning and
  returns \<^verbatim>\<open>nil\<close>: with a successful dial, a copier from the client to the tunnel whose read
  fails with a timeout after 5 bytes, and a copier from the tunnel to the client that ends
  cleanly, the handler waits for both, logs the timeout and returns \<^verbatim>\<open>nil\<close>.
\<close>

theorem C2_handler_discards_copier_error:
  "copyConnTimeout (Some BuffSize) read_fails = Some (Returns 5 (Some (ErrOther ''i/o timeout'')))
   \<and> copyConnTimeout (Some BuffSize) clean_eof = Some (Returns 8 None)
   \<and> handler None True read_fails clean_eof = Some (Some (ErrOther ''i/o timeout''), None)"
  by (simp add: handler_def copyConnTimeout_def BuffSize_def read_fails_def clean_eof_def len_def
      Let_def)




subsection \<open>The configuration parser\<close>

lemma parse_peer_keyless:
  "parse_peer lib [''Endpoint'' \<mapsto> text_key ''1.2.3.4:51820''] = Inr keyless_peer"
  by (simp add: parse_peer_def GetKey_def text_key_def keyless_peer_def)

text \<open>
  Claim C9.  The specification says that \<^verbatim>\<open>ParseConfig\<close> rejects every \<^verbatim>\<open>[Peer]\<close> section
  that has no \<^verbatim>\<open>PublicKey\<close> decoding to 32 bytes.  \<^verbatim>\<open>ParsePeers\<close> validates the key only when
  the section holds one: for a section without it, it returns a peer whose \<^verbatim>\<open>PublicKey\<close> is
  the empty string, and \<^verbatim>\<open>ParseConfig\<close> fails only if \<^verbatim>\<open>ParseInterface\<close> does.
\<close>

theorem C9_peer_without_public_key_accepted:
  "ParsePeers lib keyless_peer_file = Inr [keyless_peer]
   \<and> PublicKey (keyless_peer :: 'p PeerConfig) = []
   \<and> ParseConfig lib (Inr keyless_peer_file)
     = (case ParseInterface lib keyless_peer_file of
          Inl e \<Rightarrow> Inl e
        | Inr iface \<Rightarrow> Inr \<lparr>Interface = iface, Peers = [keyless_peer :: 'p PeerConfig]\<rparr>)"
proof -
  have "ParsePeers lib keyless_peer_file = Inr [keyless_peer :: 'p PeerConfig]"
    by (simp add: ParsePeers_def SectionsByName_def keyless_peer_file_def parse_peer_keyless)
  then show ?thesis
    by (simp add: ParseConfig_def keyless_peer_def split: sum.splits)
qed

text \<open>
  The rest of the program does not expect such a peer: \<^verbatim>\<open>establishWireguard\<close> slices the
  first 8 characters of every public key and panics on the empty one.
\<close>

lemma establishWireguard_keyless_peer_panics:
  "establishWireguard_request prefixString \<lparr>Interface = iface, Peers = [keyless_peer]\<rparr> fwmark
     = Panic"
  by (simp add: establishWireguard_request_def keyless_peer_def)

subsection \<open>Bringing the tunnel up\<close>

lemma KeepAlive_prepare_peer: "KeepAlive (prepare_peer resolve peer) = 5"
  by (simp add: prepare_peer_def Let_def split: sum.splits)

lemma KeepAlive_Run_prepare:
  "map KeepAlive (Peers (Run_prepare resolve resolver conf)) = map (\<lambda>peer. 5) (Peers conf)"
  by (simp add: Run_prepare_def KeepAlive_prepare_peer)

text \<open>
  Claim C5.  The specification says that the IPC document holds exactly one
  \<^verbatim>\<open>private_key\<close> line.  The code writes that line twice in succession: for the
  configuration of the test file (one peer, no firewall mark) the document is the
  \<^verbatim>\<open>private_key\<close> line, the same line again, the nine obfuscation lines and the five lines
  of the peer.
\<close>

theorem C5_private_key_line_written_twice:
  "establishWireguard_request id test_conf 0 =
     Ok (line (''private_key='' @ test_private_key)
         @ line (''private_key='' @ test_private_key)
         @ obfuscation_lines
         @ line (''public_key='' @ test_public_key)
         @ line ''persistent_keepalive_interval=25''
         @ line (''preshared_key='' @ zero_key)
         @ line ''endpoint=1.2.3.4:51820''
         @ line ''allowed_ip=0.0.0.0/0'')"
  by (simp add: establishWireguard_request_def test_conf_def test_peer_def peer_lines_def
      obfuscation_lines_def test_private_key_def test_public_key_def Itoa_def decimal.simps
      digit_def)

text \<open>
  Claim C6.  The specification says that a parsed keepalive of at least 5 seconds is left
  unchanged.  The loop of \<^verbatim>\<open>Run\<close> sets \<^verbatim>\<open>KeepAlive\<close> to 5 for every peer before it stores
  the peer back: the keepalive of 25 seconds of the test configuration is 5 in the prepared
  configuration and in the IPC document built from it.
\<close>

theorem C6_keepalive_overridden:
  "map KeepAlive (Peers test_conf) = [25]
   \<and> map KeepAlive (Peers (Run_prepare resolve resolver test_conf)) = [5]
   \<and> establishWireguard_request id (Run_prepare unresolved ''1.1.1.1'' test_conf) 0 =
       Ok (line (''private_key='' @ test_private_key)
           @ line (''private_key='' @ test_private_key)
           @ obfuscation_lines
           @ line (''public_key='' @ test_public_key)
           @ line ''persistent_keepalive_interval=5''
           @ line (''preshared_key='' @ zero_key)
           @ line ''endpoint=1.2.3.4:51820''
           @ line ''allowed_ip=0.0.0.0/0'')"
  by (simp add: Run_prepare_def prepare_peer_def Let_def unresolved_def
      establishWireguard_request_def test_conf_def test_peer_def peer_lines_def obfuscation_lines_def test_private_key_def
      test_public_key_def Itoa_def decimal.simps digit_def split: sum.splits)

subsection \<open>Writing a configuration and reading it back\<close>

lemma example_lib_simps:
  "ParsePrefix example_lib s = (if CHR ''/'' \<in> set s then Inr s else Inl (ErrConfig ''no slash''))"
  "ParseAddr example_lib s =
     (if CHR ''/'' \<in> set s then Inl (ErrConfig ''unexpected slash'') else Inr s)"
  "Is4 example_lib a = (CHR '':'' \<notin> set a)"
  "PrefixFrom example_lib a bits = a @ ''/'' @ Itoa bits"
  "TrimSpace example_lib = trim_spaces"
  by (simp_all add: example_lib_def)

lemma decode_private_key:
  "EncodeBase64ToHex example_lib ''dGhpcyBpcyBhIHRlc3QgcHJpdmF0ZSBleS4uLi4uLi4=''
     = Inr test_private_key"
  by (simp add: EncodeBase64ToHex_def example_lib_def test_private_key_def base64_alphabet_def
      hexdigit_def)

lemma decode_public_key:
  "EncodeBase64ToHex example_lib ''dGhpcyBpcyBhIHRlc3QgcHVibGljIGtleS4uLi4uLi4=''
     = Inr test_public_key"
  by (simp add: EncodeBase64ToHex_def example_lib_def test_public_key_def base64_alphabet_def
      hexdigit_def)

lemma encode_private_key:
  "EncodeHexToBase64 test_private_key = Inr ''dGhpcyBpcyBhIHRlc3QgcHJpdmF0ZSBleS4uLi4uLi4=''"
  by (simp add: EncodeHexToBase64_def test_private_key_def hex_value_def b64_def
      base64_alphabet_def)

lemma encode_public_key:
  "EncodeHexToBase64 test_public_key = Inr ''dGhpcyBpcyBhIHRlc3QgcHVibGljIGtleS4uLi4uLi4=''"
  by (simp add: EncodeHexToBase64_def test_public_key_def hex_value_def b64_def
      base64_alphabet_def)

lemma test_keys_not_empty: "test_private_key \<noteq> []" "test_public_key \<noteq> []"
  by (simp_all add: test_private_key_def test_public_key_def)

lemma parse_fwmark_peer: "parse_peer example_lib fwmark_peer_section = Inr test_peer"
  by (simp add: parse_peer_def fwmark_peer_section_def GetKey_def text_key_def int_key_def
      decode_public_key example_lib_simps test_peer_def)

lemma parse_fwmark_file: "ParseConfig example_lib (Inr fwmark_file) = Inr fwmark_conf"
  by (simp add: ParseConfig_def ParseInterface_def ParsePeers_def SectionsByName_def
      fwmark_file_def Key_def GetKey_def text_key_def int_key_def decode_private_key
      parse_fwmark_peer fwmark_conf_def example_lib_simps trim_spaces_def Itoa_def decimal.simps
      digit_def)

lemma write_fwmark_conf:
  "Configuration_String EncodeHexToBase64 id id fwmark_conf = Inr fwmark_text"
  by (simp add: Configuration_String_def peer_text_def fwmark_conf_def test_peer_def
      encode_private_key encode_public_key test_keys_not_empty Let_def fwmark_text_def Itoa_def
      decimal.simps digit_def zero_key_def line_def)

lemma parse_written_file:
  "ParseConfig example_lib (Inr written_file)
     = Inr (fwmark_conf\<lparr>Interface := (Interface fwmark_conf)\<lparr>FwMark := 0\<rparr>\<rparr>)"
  by (simp add: ParseConfig_def ParseInterface_def ParsePeers_def SectionsByName_def
      written_file_def Key_def GetKey_def text_key_def int_key_def decode_private_key
      parse_fwmark_peer fwmark_conf_def example_lib_simps trim_spaces_def)

text \<open>
  Claim C3.  The specification says that writing an accepted configuration with
  \<^verbatim>\<open>Configuration.String\<close> and parsing the text again yields an equivalent configuration.
  \<^verbatim>\<open>ParseInterface\<close> reads the key \<^verbatim>\<open>FwMark\<close>, and \<^verbatim>\<open>Configuration.String\<close> never writes
  it: the file above is accepted with the firewall mark 51820, the text written for the
  parsed configuration has no \<^verbatim>\<open>FwMark\<close> line, and the configuration parsed from the keys
  of that text has the firewall mark 0 (and is equal to the first one otherwise).
\<close>

theorem C3_FwMark_lost_in_round_trip:
  "ParseConfig example_lib (Inr fwmark_file) = Inr fwmark_conf
   \<and> FwMark (Interface fwmark_conf) = 51820
   \<and> Configuration_String EncodeHexToBase64 id id fwmark_conf = Inr fwmark_text
   \<and> ParseConfig example_lib (Inr written_file)
       = Inr (fwmark_conf\<lparr>Interface := (Interface fwmark_conf)\<lparr>FwMark := 0\<rparr>\<rparr>)"
  using parse_fwmark_file write_fwmark_conf parse_written_file
  by (simp add: fwmark_conf_def)

end
